theory Spec2Isabelle
  imports Main
begin

section \<open>Gourde: a bootstrap layer around a Flask application\<close>

text \<open>
  A shallow embedding of \<^verbatim>\<open>gourde/gourde.py\<close>. The class \<^verbatim>\<open>Gourde\<close> is a record,
  every method is a function that takes the object and returns the outcome of the call
  together with the object as the call leaves it: Python keeps the assignments made
  before an exception is raised, so the object is returned on the failing paths too.

  The collaborators the module drives (Flask, the \<^verbatim>\<open>logging\<close> package,
  \<^verbatim>\<open>pkg_resources\<close>, the Prometheus exporter, Sentry, Twisted) are modelled by the part of
  their state that the module writes and by the calls it makes on them. What they answer
  is taken from their documented behaviour where the module's own arguments decide it
  (the signature of \<^verbatim>\<open>Logger.exception\<close>, the level names of \<^verbatim>\<open>logging\<close>) and from an
  \<open>environment\<close> record where the process decides it (the command line, the installed
  distributions, the \<^verbatim>\<open>SENTRY_DSN\<close> variable, the default metrics registry).
\<close>

subsection \<open>Exceptions\<close>

text \<open>
  The exception classes the module meets, with their base classes. \<open>Error\<close> is the
  module's own class; \<open>Subclass n b\<close> is a class named \<open>n\<close> declared elsewhere with base
  \<open>b\<close> (what an override of a hook may raise).
\<close>

datatype exc_class =
    BaseException
  | SystemExit
  | KeyboardInterrupt
  | Exception
  | TypeError
  | ValueError
  | IndexError
  | AssertionError
  | ResolutionError
  | VersionConflict
  | DistributionNotFound
  | Error
  | Subclass string exc_class

fun mro :: "exc_class \<Rightarrow> exc_class list" where
  "mro BaseException = [BaseException]"
| "mro SystemExit = [SystemExit, BaseException]"
| "mro KeyboardInterrupt = [KeyboardInterrupt, BaseException]"
| "mro Exception = [Exception, BaseException]"
| "mro TypeError = [TypeError, Exception, BaseException]"
| "mro ValueError = [ValueError, Exception, BaseException]"
| "mro IndexError = [IndexError, Exception, BaseException]"
| "mro AssertionError = [AssertionError, Exception, BaseException]"
| "mro ResolutionError = [ResolutionError, Exception, BaseException]"
| "mro VersionConflict = [VersionConflict, ResolutionError, Exception, BaseException]"
| "mro DistributionNotFound =
     [DistributionNotFound, ResolutionError, Exception, BaseException]"
| "mro Error = [Error, Exception, BaseException]"
| "mro (Subclass n b) = Subclass n b # mro b"

text \<open>An exception object: its class and what \<^verbatim>\<open>str(e)\<close> returns.\<close>

datatype py_exception = PyExc (exc_type: exc_class) (exc_str: string)

definition isinstance :: "py_exception \<Rightarrow> exc_class \<Rightarrow> bool" where
  "isinstance e c = (c \<in> set (mro (exc_type e)))"

text \<open>The outcome of a call: \<open>Inl e\<close> when it raises \<open>e\<close>, \<open>Inr v\<close> when it returns \<open>v\<close>.\<close>

type_synonym 'a result = "py_exception + 'a"

subsection \<open>Python values and truthiness\<close>

datatype pyval = PNone | PBool bool | PInt int | PStr string

text \<open>
  \<^verbatim>\<open>if not log_level\<close>, \<^verbatim>\<open>sentry_dsn or ...\<close>: \<^verbatim>\<open>None\<close> and the empty string are false.
  \<^verbatim>\<open>if self.threads\<close>: \<^verbatim>\<open>None\<close> and \<open>0\<close> are false, every other integer is true.
\<close>

fun truthy_str :: "string option \<Rightarrow> bool" where
  "truthy_str None = False"
| "truthy_str (Some s) = (s \<noteq> [])"

fun truthy_int :: "int option \<Rightarrow> bool" where
  "truthy_int None = False"
| "truthy_int (Some n) = (n \<noteq> 0)"

subsection \<open>The \<^verbatim>\<open>logging\<close> package\<close>

text \<open>
  A handler is a \<^verbatim>\<open>StreamHandler()\<close> (its stream is \<^verbatim>\<open>sys.stderr\<close>) with the format
  string of its formatter, if one was set. A logger keeps its handlers in the order they
  were added, its threshold, its \<^verbatim>\<open>propagate\<close> flag and, here, the logging calls made on
  it (level name and message), whether or not the threshold lets them through.
\<close>

datatype handler = StreamHandler (formatter: "string option")

record logger =
  handlers :: "handler list"
  level :: int
  propagate :: bool
  calls :: "(string \<times> string) list"

definition setFormatter :: "string \<Rightarrow> handler \<Rightarrow> handler" where
  "setFormatter fmt h = StreamHandler (Some fmt)"

text \<open>
  \<^verbatim>\<open>Logger.addHandler\<close> appends a handler that is not in the list yet. Handlers are
  compared by identity and the module only ever adds a handler it has just created, so
  the handler is appended.
\<close>

definition addHandler :: "handler \<Rightarrow> logger \<Rightarrow> logger" where
  "addHandler h lg = lg\<lparr>handlers := handlers lg @ [h]\<rparr>"

definition info :: "string \<Rightarrow> logger \<Rightarrow> logger" where
  "info msg lg = lg\<lparr>calls := calls lg @ [(''INFO'', msg)]\<rparr>"

text \<open>
  \<^verbatim>\<open>Logger.exception(self, msg, *args, ...)\<close> logs \<open>msg\<close> at level \<^verbatim>\<open>ERROR\<close> with the
  traceback. \<open>msg\<close> has no default: a call without it raises \<^verbatim>\<open>TypeError\<close> and logs
  nothing. The argument list is the list of positional arguments of the call.
\<close>

fun exception :: "string list \<Rightarrow> logger \<Rightarrow> logger result" where
  "exception [] lg =
     Inl (PyExc TypeError ''exception() missing 1 required positional argument: 'msg' '')"
| "exception (msg # args) lg = Inr (lg\<lparr>calls := calls lg @ [(''ERROR'', msg)]\<rparr>)"

text \<open>
  The level names \<^verbatim>\<open>logging\<close> registers (\<^verbatim>\<open>logging._nameToLevel\<close>).
  \<^verbatim>\<open>logging.getLevelName\<close> maps a registered name to its number and any other string
  \<open>s\<close> to the string \<^verbatim>\<open>'Level s'\<close>; \<^verbatim>\<open>Logger.setLevel\<close> takes a number, or a
  registered name, and raises \<^verbatim>\<open>ValueError\<close> on any other string.
\<close>

definition nameToLevel :: "(string \<times> int) list" where
  "nameToLevel =
     [(''CRITICAL'', 50), (''FATAL'', 50), (''ERROR'', 40), (''WARN'', 30),
      (''WARNING'', 30), (''INFO'', 20), (''DEBUG'', 10), (''NOTSET'', 0)]"

definition getLevelName :: "string \<Rightarrow> pyval" where
  "getLevelName s =
     (case map_of nameToLevel s of Some n \<Rightarrow> PInt n | None \<Rightarrow> PStr (''Level '' @ s))"

fun checkLevel :: "pyval \<Rightarrow> int result" where
  "checkLevel (PInt n) = Inr n"
| "checkLevel (PBool b) = Inr (if b then 1 else 0)"
| "checkLevel (PStr s) =
     (case map_of nameToLevel s of
        Some n \<Rightarrow> Inr n
      | None \<Rightarrow> Inl (PyExc ValueError (''Unknown level: '' @ s)))"
| "checkLevel PNone = Inl (PyExc TypeError ''Level not an integer or a valid string: None'')"

definition setLevel :: "pyval \<Rightarrow> logger \<Rightarrow> logger result" where
  "setLevel v lg = (case checkLevel v of Inl e \<Rightarrow> Inl e | Inr n \<Rightarrow> Inr (lg\<lparr>level := n\<rparr>))"

subsection \<open>The Flask application\<close>

text \<open>
  The view functions a rule can point to: the four bound methods of the \<^verbatim>\<open>Gourde\<close>
  object, or a function of the hosting service.
\<close>

datatype view = Status | Healthy | Ready | Favicon | Foreign string

record flask_app =
  name :: string
  static_folder :: "string option"
  config :: "string \<rightharpoonup> string"
  app_logger :: logger
  url_rules :: "(string \<times> string \<times> view) list"
  sentry :: "string option"

text \<open>
  \<^verbatim>\<open>flask.Flask(import_name)\<close>: the static folder defaults to \<^verbatim>\<open>'static'\<close>.
  \<^verbatim>\<open>has_static_folder\<close> is \<^verbatim>\<open>self.static_folder is not None\<close>.
\<close>

definition Flask :: "string \<Rightarrow> flask_app" where
  "Flask import_name =
     \<lparr>name = import_name, static_folder = Some ''static'', config = Map.empty,
      app_logger = \<lparr>handlers = [], level = 0, propagate = True, calls = []\<rparr>,
      url_rules = [], sentry = None\<rparr>"

definition has_static_folder :: "flask_app \<Rightarrow> bool" where
  "has_static_folder a = (static_folder a \<noteq> None)"

text \<open>
  \<^verbatim>\<open>Flask.add_url_rule(rule, endpoint, view_func)\<close> raises \<^verbatim>\<open>AssertionError\<close> when the
  endpoint already has a view function that is not \<open>view_func\<close>. The functions this
  module registers are bound methods of the object under construction, which no function
  the application already holds is equal to (not even the same method of another
  \<open>Gourde\<close> around the same application), so the call fails exactly when the endpoint
  name is taken.
\<close>

definition endpoints :: "flask_app \<Rightarrow> string list" where
  "endpoints a = map (\<lambda>(route, endpoint, handler). endpoint) (url_rules a)"

definition flask_add_url_rule ::
  "string \<Rightarrow> string \<Rightarrow> view \<Rightarrow> flask_app \<Rightarrow> flask_app result" where
  "flask_add_url_rule route endpoint handler a =
     (if endpoint \<in> set (endpoints a)
      then Inl (PyExc AssertionError
             (''View function mapping is overwriting an existing endpoint function: '' @
              endpoint))
      else Inr (a\<lparr>url_rules := url_rules a @ [(route, endpoint, handler)]\<rparr>))"

subsection \<open>The Gourde object\<close>

text \<open>
  A collector registry of \<^verbatim>\<open>prometheus_client\<close>, by the names of the time series it
  holds. A registry is shared, mutable state: a function that registers a series returns
  the registry as it is afterwards, and the caller hands that on to whoever uses the
  same registry next.

  The metrics exporter attached to the application: its registry (the one given, or the
  process-wide default \<^verbatim>\<open>prometheus_client.REGISTRY\<close> when \<^verbatim>\<open>None\<close> is given) and the
  info metrics registered through it (name, description, labels).
  \<^verbatim>\<open>PrometheusMetrics.info\<close> registers a gauge under the given name, and the registry
  raises \<^verbatim>\<open>ValueError\<close> for a name it already holds.
\<close>

type_synonym collector_registry = "string list"

record metrics =
  registry :: collector_registry
  infos :: "(string \<times> string \<times> (string \<times> string) list) list"

definition PrometheusMetrics ::
  "flask_app \<Rightarrow> collector_registry option \<Rightarrow> collector_registry \<Rightarrow> metrics" where
  "PrometheusMetrics a reg default_registry =
     \<lparr>registry = (case reg of None \<Rightarrow> default_registry | Some r \<Rightarrow> r), infos = []\<rparr>"

definition metrics_info ::
  "string \<Rightarrow> string \<Rightarrow> (string \<times> string) list \<Rightarrow> metrics \<Rightarrow> metrics result" where
  "metrics_info nm descr labels m =
     (if nm \<in> set (registry m)
      then Inl (PyExc ValueError (''Duplicated timeseries in CollectorRegistry: '' @ nm))
      else Inr (m\<lparr>registry := registry m @ [nm],
                   infos := infos m @ [(nm, descr, labels)]\<rparr>))"

record gourde =
  app :: flask_app
  host :: "string option"
  port :: int
  debug :: bool
  log_level :: "string option"
  twisted :: bool
  threads :: "int option"
  metrics :: "metrics option"
  is_setup :: bool

text \<open>
  The argument bundle \<^verbatim>\<open>setup\<close> reads: an \<^verbatim>\<open>argparse.Namespace\<close> with the six
  attributes, of the types the parser of \<^verbatim>\<open>get_argparser\<close> produces.
\<close>

record namespace =
  ns_host :: "string option"
  ns_port :: int
  ns_debug :: bool
  ns_log_level :: "string option"
  ns_twisted :: bool
  ns_threads :: "int option"

text \<open>
  An argument declared on an \<^verbatim>\<open>argparse\<close> parser: its option strings, its default,
  its action and the type its value is converted to.
\<close>

datatype arg_action = Store | StoreTrue

datatype arg_type = AsStr | AsInt

record argument =
  arg_flags :: "string list"
  arg_default :: pyval
  arg_action :: arg_action
  arg_type :: arg_type
  arg_help :: string

text \<open>
  What the process decides: what \<^verbatim>\<open>parse_args()\<close> of the module's parser makes of the
  command line, what \<^verbatim>\<open>pkg_resources.require(self.app.name)\<close> answers (the versions of
  the distributions it returns, or the exception it raises), whether the import of
  \<^verbatim>\<open>raven\<close> succeeded, the variable \<^verbatim>\<open>SENTRY_DSN\<close>, and what the process-wide
  default registry of \<^verbatim>\<open>prometheus_client\<close> holds.
\<close>

record environment =
  parse_args :: "argument list \<Rightarrow> namespace result"
  require :: "string list result"
  Sentry :: bool
  SENTRY_DSN :: "string option"
  REGISTRY :: collector_registry

definition LOG_FORMAT :: string where
  "LOG_FORMAT =
     ''[%(asctime)s] %(levelname)s %(module)s '' @
     ''[%(filename)s:%(funcName)s:%(lineno)d] (%(thread)d): %(message)s''"


subsection \<open>The command-line parser\<close>

text \<open>
  \<^verbatim>\<open>get_argparser(parser=None)\<close> adds six arguments to the parser it is given, or to a
  new one. \<^verbatim>\<open>argparse\<close> names the attribute of an argument after its first long option
  string, without the leading dashes and with \<open>-\<close> turned into \<open>_\<close>, and an argument
  that the command line does not mention gets its default.
\<close>

definition get_argparser :: "argument list option \<Rightarrow> argument list" where
  "get_argparser parser =
     (case parser of None \<Rightarrow> [] | Some p \<Rightarrow> p) @
     [\<lparr>arg_flags = [''--host''], arg_default = PNone, arg_action = Store,
       arg_type = AsStr, arg_help = ''Host listen address''\<rparr>,
      \<lparr>arg_flags = [''--port'', ''-p''], arg_default = PInt 9050, arg_action = Store,
       arg_type = AsInt, arg_help = ''Listen port''\<rparr>,
      \<lparr>arg_flags = [''--debug'', ''-d''], arg_default = PBool False, arg_action = StoreTrue,
       arg_type = AsStr, arg_help = ''Enable debug mode''\<rparr>,
      \<lparr>arg_flags = [''--log-level'', ''-l''], arg_default = PStr ''INFO'', arg_action = Store,
       arg_type = AsStr, arg_help = ''Log Level, empty string to disable.''\<rparr>,
      \<lparr>arg_flags = [''--twisted''], arg_default = PBool False, arg_action = StoreTrue,
       arg_type = AsStr, arg_help = ''Use twisted to server requests.''\<rparr>,
      \<lparr>arg_flags = [''--threads''], arg_default = PNone, arg_action = Store,
       arg_type = AsInt, arg_help = ''Number of threads to use.''\<rparr>]"

definition dest :: "argument \<Rightarrow> string" where
  "dest a =
     (let long = filter (\<lambda>s. take 2 s = ''--'') (arg_flags a);
          flag = (case long @ arg_flags a of [] \<Rightarrow> [] | s # _ \<Rightarrow> s)
      in map (\<lambda>c. if c = CHR ''-'' then CHR ''_'' else c)
           (dropWhile (\<lambda>c. c = CHR ''-'') flag))"

definition defaults :: "argument list \<Rightarrow> (string \<times> pyval) list" where
  "defaults parser = map (\<lambda>a. (dest a, arg_default a)) parser"

subsection \<open>Setting up logging, metrics and error monitoring\<close>

text \<open>
  \<^verbatim>\<open>setup_logging(self, log_level)\<close>. \<^verbatim>\<open>not log_level\<close> holds for \<^verbatim>\<open>None\<close> and for
  the empty string. The handler is attached before the level is resolved, so it stays
  attached when \<^verbatim>\<open>setLevel\<close> raises.
\<close>

definition setup_logging :: "string option \<Rightarrow> gourde \<Rightarrow> unit result \<times> gourde" where
  "setup_logging lvl self =
     (case lvl of
        None \<Rightarrow> (Inr (), self)
      | Some s \<Rightarrow>
          if s = [] then (Inr (), self)
          else
            let a1 = (app self)\<lparr>config :=
                       (config (app self))(''LOGGER_HANDLER_POLICY'' \<mapsto> ''never'')\<rparr>;
                a2 = a1\<lparr>app_logger := (app_logger a1)\<lparr>propagate := True\<rparr>\<rparr>;
                handler = setFormatter LOG_FORMAT (StreamHandler None);
                a3 = a2\<lparr>app_logger := addHandler handler (app_logger a2)\<rparr>
            in case setLevel (getLevelName s) (app_logger a3) of
                 Inl e \<Rightarrow> (Inl e, self\<lparr>app := a3\<rparr>)
               | Inr lg \<Rightarrow>
                   (Inr (), self\<lparr>app := a3\<lparr>app_logger := info ''Logging initialized.'' lg\<rparr>\<rparr>))"

text \<open>
  \<^verbatim>\<open>setup_prometheus(self, registry)\<close>. The \<^verbatim>\<open>try\<close> block holds the expression
  \<^verbatim>\<open>pkg_resources.require(self.app.name)[0].version\<close>, here \<open>lookup_version\<close>: the call
  of \<^verbatim>\<open>require\<close> may raise, and so may the index \<^verbatim>\<open>[0]\<close> on an empty list. The only
  handler of the block is for \<^verbatim>\<open>DistributionNotFound\<close>. The exporter is assigned to
  \<^verbatim>\<open>self.metrics\<close> before anything can fail.
\<close>

definition first_version :: "string list \<Rightarrow> string result" where
  "first_version ds =
     (case ds of [] \<Rightarrow> Inl (PyExc IndexError ''list index out of range'') | v # _ \<Rightarrow> Inr v)"

definition lookup_version :: "environment \<Rightarrow> string result" where
  "lookup_version env =
     (case require env of Inl e \<Rightarrow> Inl e | Inr ds \<Rightarrow> first_version ds)"

definition setup_prometheus ::
  "collector_registry option \<Rightarrow> environment \<Rightarrow> gourde \<Rightarrow> unit result \<times> gourde" where
  "setup_prometheus reg env self =
     (let m = PrometheusMetrics (app self) reg (REGISTRY env);
          s1 = self\<lparr>metrics := Some m\<rparr>;
          version = (case lookup_version env of
                       Inl e \<Rightarrow> if isinstance e DistributionNotFound then Inr ''unknown''
                                else Inl e
                     | Inr v \<Rightarrow> Inr v)
      in case version of
           Inl e \<Rightarrow> (Inl e, s1)
         | Inr v \<Rightarrow>
             (case metrics_info ''app_info'' ''Application info''
                     [(''version'', v), (''appname'', name (app s1))] m of
                Inl e \<Rightarrow> (Inl e, s1)
              | Inr m' \<Rightarrow>
                  (Inr (),
                   s1\<lparr>metrics := Some m',
                      app := (app s1)\<lparr>app_logger :=
                               info ''Prometheus is enabled.'' (app_logger (app s1))\<rparr>\<rparr>)))"

text \<open>
  \<^verbatim>\<open>setup_sentry(self, sentry_dsn)\<close>: nothing happens without the \<^verbatim>\<open>raven\<close> client or
  without a DSN.
\<close>

definition setup_sentry :: "string option \<Rightarrow> environment \<Rightarrow> gourde \<Rightarrow> gourde" where
  "setup_sentry sentry_dsn env self =
     (let dsn = (if truthy_str sentry_dsn then sentry_dsn else SENTRY_DSN env)
      in if \<not> Sentry env \<or> \<not> truthy_str dsn then self
         else self\<lparr>app := (app self)\<lparr>sentry := dsn,
                      app_logger := info ''Sentry is enabled.'' (app_logger (app self))\<rparr>\<rparr>)"

text \<open>
  \<^verbatim>\<open>add_url_rule(self, route, endpoint, handler)\<close> hands the rule to the application.
\<close>

definition add_url_rule :: "string \<Rightarrow> string \<Rightarrow> view \<Rightarrow> gourde \<Rightarrow> gourde result" where
  "add_url_rule route endpoint handler self =
     (case flask_add_url_rule route endpoint handler (app self) of
        Inl e \<Rightarrow> Inl e
      | Inr a \<Rightarrow> Inr (self\<lparr>app := a\<rparr>))"

subsection \<open>Construction and configuration\<close>

text \<open>
  \<^verbatim>\<open>__init__(self, app_or_name, registry=None)\<close>. An exception leaves no object behind,
  so the constructor returns the object or the exception.
\<close>

datatype app_or_name = App flask_app | Name string

definition init ::
  "app_or_name \<Rightarrow> collector_registry option \<Rightarrow> environment \<Rightarrow> gourde result" where
  "init a_or_n reg env =
     (let a = (case a_or_n of App a \<Rightarrow> a | Name n \<Rightarrow> Flask n);
          s0 = \<lparr>app = a, host = Some ''127.0.0.1'', port = 8080, debug = False,
                log_level = None, twisted = False, threads = None, metrics = None,
                is_setup = False\<rparr>
      in case add_url_rule ''/'' ''status'' Status s0 of
           Inl e \<Rightarrow> Inl e
         | Inr s1 \<Rightarrow>
        (case add_url_rule ''/-/healthy'' ''health'' Healthy s1 of
           Inl e \<Rightarrow> Inl e
         | Inr s2 \<Rightarrow>
        (case add_url_rule ''/-/ready'' ''ready'' Ready s2 of
           Inl e \<Rightarrow> Inl e
         | Inr s3 \<Rightarrow>
        (case (if has_static_folder (app s3)
               then add_url_rule ''/favicon.ico'' ''favicon'' Favicon s3 else Inr s3) of
           Inl e \<Rightarrow> Inl e
         | Inr s4 \<Rightarrow>
        (case setup_prometheus reg env s4 of
           (Inl e, s5) \<Rightarrow> Inl e
         | (Inr u, s5) \<Rightarrow> Inr (setup_sentry None env s5))))))"

text \<open>
  \<^verbatim>\<open>setup(self, args)\<close>: the body, for a value of \<open>args\<close> (\<open>None\<close> is Python's
  \<^verbatim>\<open>None\<close>). The name \<open>setup\<close> is taken in Isabelle, hence \<open>setup_gourde\<close>.
\<close>

definition setup_gourde :: "namespace option \<Rightarrow> environment \<Rightarrow> gourde \<Rightarrow> unit result \<times> gourde" where
  "setup_gourde args env self =
     (case (case args of None \<Rightarrow> parse_args env (get_argparser None) | Some ns \<Rightarrow> Inr ns) of
        Inl e \<Rightarrow> (Inl e, self)
      | Inr ns \<Rightarrow>
          let s1 = self\<lparr>host := ns_host ns, port := ns_port ns, debug := ns_debug ns,
                       log_level := ns_log_level ns, twisted := ns_twisted ns,
                       threads := ns_threads ns\<rparr>
          in case setup_logging (log_level s1) s1 of
               (Inl e, s2) \<Rightarrow> (Inl e, s2)
             | (Inr u, s2) \<Rightarrow> (Inr (), s2\<lparr>is_setup := True\<rparr>))"

text \<open>
  A call \<^verbatim>\<open>self.setup(...)\<close> with the given positional arguments. The parameter
  \<open>args\<close> of \<^verbatim>\<open>def setup(self, args)\<close> has no default, so a call that passes nothing
  raises \<^verbatim>\<open>TypeError\<close> before the body starts.
\<close>

fun call_setup ::
  "namespace option list \<Rightarrow> environment \<Rightarrow> gourde \<Rightarrow> unit result \<times> gourde" where
  "call_setup [] env self =
     (Inl (PyExc TypeError ''setup() missing 1 required positional argument: 'args' ''), self)"
| "call_setup [args] env self = setup_gourde args env self"
| "call_setup (a # b # rest) env self =
     (Inl (PyExc TypeError ''setup() takes 2 positional arguments but more were given''), self)"

subsection \<open>The built-in endpoints\<close>

definition status :: "gourde \<Rightarrow> string" where
  "status self = ''status''"

text \<open>
  \<^verbatim>\<open>is_healthy\<close> and \<^verbatim>\<open>is_ready\<close> are meant to be overridden. The handlers call whatever
  the class of the object defines, so they take the two methods as a record; \<open>Gourde\<close>
  is the class as the module declares it.
\<close>

definition is_healthy :: "gourde \<Rightarrow> bool result" where
  "is_healthy self = Inr True"

definition is_ready :: "gourde \<Rightarrow> bool result" where
  "is_ready self = Inr True"

record hooks =
  healthy_hook :: "gourde \<Rightarrow> bool result"
  ready_hook :: "gourde \<Rightarrow> bool result"

definition Gourde :: hooks where
  "Gourde = \<lparr>healthy_hook = is_healthy, ready_hook = is_ready\<rparr>"

type_synonym response = "string \<times> int"

definition healthy :: "hooks \<Rightarrow> gourde \<Rightarrow> response result \<times> gourde" where
  "healthy cls self =
     (case healthy_hook cls self of
        Inr b \<Rightarrow> (Inr (if b then (''OK'', 200) else (''FAIL'', 500)), self)
      | Inl e \<Rightarrow>
          if isinstance e Exception then
            (case exception [] (app_logger (app self)) of
               Inl e' \<Rightarrow> (Inl e', self)
             | Inr lg \<Rightarrow> (Inr (exc_str e, 500), self\<lparr>app := (app self)\<lparr>app_logger := lg\<rparr>\<rparr>))
          else (Inl e, self))"

definition ready :: "hooks \<Rightarrow> gourde \<Rightarrow> response result \<times> gourde" where
  "ready cls self =
     (case ready_hook cls self of
        Inr b \<Rightarrow> (Inr (if b then (''OK'', 200) else (''FAIL'', 500)), self)
      | Inl e \<Rightarrow>
          if isinstance e Exception then
            (case exception [] (app_logger (app self)) of
               Inl e' \<Rightarrow> (Inl e', self)
             | Inr lg \<Rightarrow> (Inr (exc_str e, 500), self\<lparr>app := (app self)\<lparr>app_logger := lg\<rparr>\<rparr>))
          else (Inl e, self))"

subsection \<open>Running\<close>

text \<open>
  The calls a run makes on the engine and on Twisted, in the order it makes them:
  \<^verbatim>\<open>app.run(host, port, debug, threaded, **options)\<close>, \<^verbatim>\<open>flask_twisted.Twisted(app)\<close>,
  \<^verbatim>\<open>reactor.suggestThreadPoolSize(n)\<close>, \<^verbatim>\<open>log.startLogging(sys.stderr)\<close> and
  \<^verbatim>\<open>twisted.run(host, port, debug, **options)\<close>.
\<close>

type_synonym options = "(string \<times> pyval) list"

datatype stream = Stderr | Stdout

datatype call =
    AppRun "string option" int bool bool options
  | TwistedInit
  | SuggestThreadPoolSize int
  | StartLogging stream
  | TwistedRun "string option" int bool options

definition run_with_werkzeug :: "options \<Rightarrow> gourde \<Rightarrow> call list" where
  "run_with_werkzeug opts self =
     (let threaded = (case threads self of None \<Rightarrow> False | Some n \<Rightarrow> 0 < n)
      in [AppRun (host self) (port self) (debug self) threaded opts])"

definition run_with_twisted :: "options \<Rightarrow> gourde \<Rightarrow> call list" where
  "run_with_twisted opts self =
     [TwistedInit] @
     (if truthy_int (threads self)
      then (case threads self of None \<Rightarrow> [] | Some n \<Rightarrow> [SuggestThreadPoolSize n]) else []) @
     (if truthy_str (log_level self) then [StartLogging Stderr] else []) @
     [TwistedRun (host self) (port self) (debug self) opts]"

definition run :: "options \<Rightarrow> environment \<Rightarrow> gourde \<Rightarrow> unit result \<times> gourde \<times> call list" where
  "run opts env self =
     (case (if \<not> is_setup self then call_setup [] env self else (Inr (), self)) of
        (Inl e, s1) \<Rightarrow> (Inl e, s1, [])
      | (Inr u, s1) \<Rightarrow>
          if \<not> twisted s1 then (Inr (), s1, run_with_werkzeug opts s1)
          else (Inr (), s1, run_with_twisted opts s1))"

subsection \<open>A sample service\<close>

text \<open>
  The attributes of a namespace by name (Python's \<^verbatim>\<open>vars(args)\<close>), and the namespace
  the parser yields for a command line without options.
\<close>

definition vars :: "namespace \<Rightarrow> (string \<times> pyval) list" where
  "vars ns =
     [(''host'', case ns_host ns of None \<Rightarrow> PNone | Some s \<Rightarrow> PStr s),
      (''port'', PInt (ns_port ns)),
      (''debug'', PBool (ns_debug ns)),
      (''log_level'', case ns_log_level ns of None \<Rightarrow> PNone | Some s \<Rightarrow> PStr s),
      (''twisted'', PBool (ns_twisted ns)),
      (''threads'', case ns_threads ns of None \<Rightarrow> PNone | Some n \<Rightarrow> PInt n)]"

definition cli_defaults :: namespace where
  "cli_defaults =
     \<lparr>ns_host = None, ns_port = 9050, ns_debug = False, ns_log_level = Some ''INFO'',
      ns_twisted = False, ns_threads = None\<rparr>"

text \<open>
  A process started without options, where no distribution is installed under the
  application's name, the \<^verbatim>\<open>raven\<close> client is absent and the default registry is
  empty; the same process where the distribution is installed but one of its
  requirements is at a conflicting version; and the same process where \<^verbatim>\<open>require\<close>
  returns no distribution at all.
\<close>

definition quiet_env :: environment where
  "quiet_env =
     \<lparr>parse_args = (\<lambda>parser. Inr cli_defaults),
      require = Inl (PyExc DistributionNotFound ''svc''),
      Sentry = False, SENTRY_DSN = None, REGISTRY = []\<rparr>"

definition conflict_env :: environment where
  "conflict_env = quiet_env\<lparr>require := Inl (PyExc VersionConflict ''(flask 0.10 , flask>=0.12)'')\<rparr>"

definition empty_env :: environment where
  "empty_env = quiet_env\<lparr>require := Inr []\<rparr>"

definition svc :: gourde where
  "svc = projr (init (Name ''svc'') None quiet_env)"

text \<open>
  Two subclasses of \<open>Gourde\<close>: one whose checks answer \<^verbatim>\<open>False\<close>, one whose checks
  raise \<^verbatim>\<open>Exception('db down')\<close>.
\<close>

definition Failing :: hooks where
  "Failing = \<lparr>healthy_hook = (\<lambda>self. Inr False), ready_hook = (\<lambda>self. Inr False)\<rparr>"

definition Raising :: hooks where
  "Raising =
     \<lparr>healthy_hook = (\<lambda>self. Inl (PyExc Exception ''db down'')),
      ready_hook = (\<lambda>self. Inl (PyExc Exception ''db down''))\<rparr>"

text \<open>Argument bundles: one with a level name of \<^verbatim>\<open>logging\<close>, one without.\<close>

definition debug_args :: namespace where
  "debug_args =
     \<lparr>ns_host = Some ''0.0.0.0'', ns_port = 8000, ns_debug = True,
      ns_log_level = Some ''DEBUG'', ns_twisted = True, ns_threads = Some 8\<rparr>"

definition verbose_args :: namespace where
  "verbose_args = debug_args\<lparr>ns_log_level := Some ''verbose''\<rparr>"

text \<open>
  The levels \<^verbatim>\<open>setup_logging\<close> gets through: none, the empty string, or a name that
  \<^verbatim>\<open>logging\<close> has registered.
\<close>

definition known_level :: "string option \<Rightarrow> bool" where
  "known_level lvl =
     (case lvl of None \<Rightarrow> True | Some s \<Rightarrow> s = [] \<or> map_of nameToLevel s \<noteq> None)"

section \<open>Properties\<close>

subsection \<open>Auxiliary facts\<close>

lemma init_svc: "init (Name ''svc'') None quiet_env = Inr svc"
  unfolding svc_def
  by (simp add: init_def quiet_env_def setup_prometheus_def setup_sentry_def Let_def
      isinstance_def lookup_version_def add_url_rule_def flask_add_url_rule_def
      endpoints_def Flask_def has_static_folder_def PrometheusMetrics_def metrics_info_def)

lemma Level_prefix_unknown: "map_of nameToLevel (''Level '' @ s) = None"
  by (simp add: nameToLevel_def)

lemma setLevel_getLevelName:
  "setLevel (getLevelName s) lg =
     (case map_of nameToLevel s of
        Some n \<Rightarrow> Inr (lg\<lparr>level := n\<rparr>)
      | None \<Rightarrow> Inl (PyExc ValueError (''Unknown level: Level '' @ s)))"
  using Level_prefix_unknown [of s]
  by (cases "map_of nameToLevel s") (simp_all add: setLevel_def getLevelName_def)

lemma raising_check_never_answers:
  "healthy_hook cls self = Inl e \<Longrightarrow> \<exists>e'. healthy cls self = (Inl e', self)"
  "ready_hook cls self = Inl e \<Longrightarrow> \<exists>e'. ready cls self = (Inl e', self)"
  by (simp_all add: healthy_def ready_def)

lemma run_configured:
  "is_setup self \<Longrightarrow>
   run opts env self =
     (Inr (), self, if twisted self then run_with_twisted opts self
                    else run_with_werkzeug opts self)"
  by (simp add: run_def)

lemma setup_logging_skip:
  "\<not> truthy_str lvl \<Longrightarrow> setup_logging lvl self = (Inr (), self)"
  by (cases lvl) (simp_all add: setup_logging_def)

lemma setup_logging_known:
  assumes "s \<noteq> []" and "map_of nameToLevel s = Some n"
  shows "setup_logging (Some s) self =
    (Inr (),
     self\<lparr>app := (app self)
        \<lparr>config := (config (app self))(''LOGGER_HANDLER_POLICY'' \<mapsto> ''never''),
         app_logger :=
           \<lparr>handlers = handlers (app_logger (app self)) @ [StreamHandler (Some LOG_FORMAT)],
            level = n, propagate = True,
            calls = calls (app_logger (app self)) @ [(''INFO'', ''Logging initialized.'')]\<rparr>\<rparr>\<rparr>)"
  using assms
  by (simp add: setup_logging_def Let_def setLevel_getLevelName addHandler_def
      setFormatter_def info_def)

lemma setup_logging_unknown:
  assumes "s \<noteq> []" and "map_of nameToLevel s = None"
  shows "setup_logging (Some s) self =
    (Inl (PyExc ValueError (''Unknown level: Level '' @ s)),
     self\<lparr>app := (app self)
        \<lparr>config := (config (app self))(''LOGGER_HANDLER_POLICY'' \<mapsto> ''never''),
         app_logger := (app_logger (app self))
           \<lparr>handlers := handlers (app_logger (app self)) @ [StreamHandler (Some LOG_FORMAT)],
            propagate := True\<rparr>\<rparr>\<rparr>)"
  using assms
  by (simp add: setup_logging_def Let_def setLevel_getLevelName addHandler_def
      setFormatter_def info_def)

lemma setup_logging_handlers:
  "truthy_str lvl \<Longrightarrow>
   handlers (app_logger (app (snd (setup_logging lvl self)))) =
     handlers (app_logger (app self)) @ [StreamHandler (Some LOG_FORMAT)]"
proof (cases lvl)
  case None
  then show "truthy_str lvl \<Longrightarrow> ?thesis" by simp
next
  case (Some s)
  assume "truthy_str lvl"
  with Some have ne: "s \<noteq> []" by simp
  show ?thesis
  proof (cases "map_of nameToLevel s")
    case None
    with ne Some show ?thesis by (simp add: setup_logging_unknown)
  next
    case (Some n)
    with ne \<open>lvl = Some s\<close> show ?thesis by (simp add: setup_logging_known)
  qed
qed

lemma setup_logging_app_only:
  "app self = app self' \<Longrightarrow>
   fst (setup_logging lvl self) = fst (setup_logging lvl self') \<and>
   app (snd (setup_logging lvl self)) = app (snd (setup_logging lvl self'))"
  by (simp add: setup_logging_def Let_def split: option.splits sum.splits)

lemma setup_logging_fields:
  "host (snd (setup_logging lvl self)) = host self"
  "port (snd (setup_logging lvl self)) = port self"
  "debug (snd (setup_logging lvl self)) = debug self"
  "log_level (snd (setup_logging lvl self)) = log_level self"
  "twisted (snd (setup_logging lvl self)) = twisted self"
  "threads (snd (setup_logging lvl self)) = threads self"
  "metrics (snd (setup_logging lvl self)) = metrics self"
  "is_setup (snd (setup_logging lvl self)) = is_setup self"
  by (simp_all add: setup_logging_def Let_def split: option.splits sum.splits)

lemma known_level_ok:
  assumes "known_level lvl"
  shows "fst (setup_logging lvl self) = Inr ()"
proof (cases "truthy_str lvl")
  case False
  then show ?thesis by (simp add: setup_logging_skip)
next
  case True
  then obtain s where s: "lvl = Some s" "s \<noteq> []"
    by (cases lvl) simp_all
  with assms obtain n where "map_of nameToLevel s = Some n"
    by (auto simp add: known_level_def)
  with s show ?thesis by (simp add: setup_logging_known)
qed

lemma setup_sentry_frame:
  "host (setup_sentry d env s) = host s"
  "port (setup_sentry d env s) = port s"
  "debug (setup_sentry d env s) = debug s"
  "log_level (setup_sentry d env s) = log_level s"
  "twisted (setup_sentry d env s) = twisted s"
  "threads (setup_sentry d env s) = threads s"
  "metrics (setup_sentry d env s) = metrics s"
  "is_setup (setup_sentry d env s) = is_setup s"
  "url_rules (app (setup_sentry d env s)) = url_rules (app s)"
  "static_folder (app (setup_sentry d env s)) = static_folder (app s)"
  "name (app (setup_sentry d env s)) = name (app s)"
  by (simp_all add: setup_sentry_def Let_def)

lemma setup_prometheus_frame:
  assumes "setup_prometheus reg env s = (r, s')"
  shows "host s' = host s" "port s' = port s" "debug s' = debug s"
    "log_level s' = log_level s" "twisted s' = twisted s" "threads s' = threads s"
    "is_setup s' = is_setup s" "url_rules (app s') = url_rules (app s)"
    "static_folder (app s') = static_folder (app s)" "name (app s') = name (app s)"
  using assms
  by (auto simp add: setup_prometheus_def Let_def split: sum.splits if_splits)

lemma add_url_rule_Inr:
  assumes "add_url_rule rt ep h s = Inr s'"
  shows "host s' = host s" "port s' = port s" "debug s' = debug s"
    "log_level s' = log_level s" "twisted s' = twisted s" "threads s' = threads s"
    "is_setup s' = is_setup s" "url_rules (app s') = url_rules (app s) @ [(rt, ep, h)]"
    "static_folder (app s') = static_folder (app s)" "name (app s') = name (app s)"
  using assms
  by (auto simp add: add_url_rule_def flask_add_url_rule_def split: sum.splits if_splits)

lemma sum_case_InrE:
  assumes "(case m of Inl e \<Rightarrow> Inl e | Inr x \<Rightarrow> f x) = Inr y"
  obtains x where "m = Inr x" and "f x = Inr y"
  using assms by (cases m) simp_all

lemma init_steps:
  assumes "init a_or_n reg env = Inr g"
  shows "\<exists>s1 s2 s3 s4 s5.
     add_url_rule ''/'' ''status'' Status
       \<lparr>app = (case a_or_n of App a \<Rightarrow> a | Name n \<Rightarrow> Flask n),
        host = Some ''127.0.0.1'', port = 8080, debug = False, log_level = None,
        twisted = False, threads = None, metrics = None, is_setup = False\<rparr> = Inr s1 \<and>
     add_url_rule ''/-/healthy'' ''health'' Healthy s1 = Inr s2 \<and>
     add_url_rule ''/-/ready'' ''ready'' Ready s2 = Inr s3 \<and>
     (if has_static_folder (app s3)
      then add_url_rule ''/favicon.ico'' ''favicon'' Favicon s3 else Inr s3) = Inr s4 \<and>
     setup_prometheus reg env s4 = (Inr (), s5) \<and> g = setup_sentry None env s5"
  using assms unfolding init_def Let_def
proof (elim sum_case_InrE)
  fix s1 s2 s3 s4
  assume 1: "add_url_rule ''/'' ''status'' Status
       \<lparr>app = (case a_or_n of App a \<Rightarrow> a | Name n \<Rightarrow> Flask n),
        host = Some ''127.0.0.1'', port = 8080, debug = False, log_level = None,
        twisted = False, threads = None, metrics = None, is_setup = False\<rparr> = Inr s1"
    and 2: "add_url_rule ''/-/healthy'' ''health'' Healthy s1 = Inr s2"
    and 3: "add_url_rule ''/-/ready'' ''ready'' Ready s2 = Inr s3"
    and 4: "(if has_static_folder (app s3)
      then add_url_rule ''/favicon.ico'' ''favicon'' Favicon s3 else Inr s3) = Inr s4"
    and 5: "(case setup_prometheus reg env s4 of
           (Inl e, s5) \<Rightarrow> Inl e
         | (Inr u, s5) \<Rightarrow> Inr (setup_sentry None env s5)) = Inr g"
  obtain r s5 where p: "setup_prometheus reg env s4 = (r, s5)"
    by (cases "setup_prometheus reg env s4")
  with 5 have "r = Inr ()" "g = setup_sentry None env s5"
    by (cases r; simp)+
  with p 1 2 3 4 show ?thesis
    by blast
qed

lemma init_decompose:
  assumes "init a_or_n reg env = Inr g"
  shows "\<exists>s4 s5.
     host s4 = Some ''127.0.0.1'' \<and> port s4 = 8080 \<and> debug s4 = False \<and>
     log_level s4 = None \<and> twisted s4 = False \<and> threads s4 = None \<and>
     is_setup s4 = False \<and>
     static_folder (app s4) =
       static_folder (case a_or_n of App a \<Rightarrow> a | Name n \<Rightarrow> Flask n) \<and>
     url_rules (app s4) =
       url_rules (case a_or_n of App a \<Rightarrow> a | Name n \<Rightarrow> Flask n) @
       [(''/'', ''status'', Status), (''/-/healthy'', ''health'', Healthy),
        (''/-/ready'', ''ready'', Ready)] @
       (if has_static_folder (app s4) then [(''/favicon.ico'', ''favicon'', Favicon)]
        else []) \<and>
     setup_prometheus reg env s4 = (Inr (), s5) \<and> g = setup_sentry None env s5"
proof -
  define A where "A = (case a_or_n of App a \<Rightarrow> a | Name n \<Rightarrow> Flask n)"
  from init_steps [OF assms] obtain s1 s2 s3 s4 s5 where
    r1: "add_url_rule ''/'' ''status'' Status
       \<lparr>app = A, host = Some ''127.0.0.1'', port = 8080, debug = False, log_level = None,
        twisted = False, threads = None, metrics = None, is_setup = False\<rparr> = Inr s1"
    and r2: "add_url_rule ''/-/healthy'' ''health'' Healthy s1 = Inr s2"
    and r3: "add_url_rule ''/-/ready'' ''ready'' Ready s2 = Inr s3"
    and r4: "(if has_static_folder (app s3)
      then add_url_rule ''/favicon.ico'' ''favicon'' Favicon s3 else Inr s3) = Inr s4"
    and p: "setup_prometheus reg env s4 = (Inr (), s5)"
    and g: "g = setup_sentry None env s5"
    unfolding A_def by blast
  have f3: "host s3 = Some ''127.0.0.1''" "port s3 = 8080" "debug s3 = False"
    "log_level s3 = None" "twisted s3 = False" "threads s3 = None" "is_setup s3 = False"
    "static_folder (app s3) = static_folder A"
    "url_rules (app s3) = url_rules A @
       [(''/'', ''status'', Status), (''/-/healthy'', ''health'', Healthy),
        (''/-/ready'', ''ready'', Ready)]"
    using add_url_rule_Inr [OF r1] add_url_rule_Inr [OF r2] add_url_rule_Inr [OF r3]
    by simp_all
  have all4:
      "host s4 = Some ''127.0.0.1'' \<and> port s4 = 8080 \<and> debug s4 = False \<and>
       log_level s4 = None \<and> twisted s4 = False \<and> threads s4 = None \<and>
       is_setup s4 = False \<and>
       static_folder (app s4) = static_folder A \<and>
       url_rules (app s4) = url_rules A @
         [(''/'', ''status'', Status), (''/-/healthy'', ''health'', Healthy),
          (''/-/ready'', ''ready'', Ready)] @
         (if has_static_folder (app s4) then [(''/favicon.ico'', ''favicon'', Favicon)]
          else [])"
  proof (cases "has_static_folder (app s3)")
    case True
    with r4 have r: "add_url_rule ''/favicon.ico'' ''favicon'' Favicon s3 = Inr s4"
      by simp
    from True add_url_rule_Inr(9) [OF r] have "has_static_folder (app s4)"
      by (simp add: has_static_folder_def)
    with add_url_rule_Inr [OF r] f3 show ?thesis
      by simp
  next
    case False
    with r4 have "s4 = s3"
      by simp
    with False f3 show ?thesis
      by simp
  qed
  then have f4: "host s4 = Some ''127.0.0.1''" "port s4 = 8080" "debug s4 = False"
    "log_level s4 = None" "twisted s4 = False" "threads s4 = None" "is_setup s4 = False"
    and sf: "static_folder (app s4) = static_folder A"
    and u4: "url_rules (app s4) = url_rules A @
       [(''/'', ''status'', Status), (''/-/healthy'', ''health'', Healthy),
        (''/-/ready'', ''ready'', Ready)] @
       (if has_static_folder (app s4) then [(''/favicon.ico'', ''favicon'', Favicon)]
        else [])"
    by simp_all
  from f4 sf u4 p g show ?thesis
    unfolding A_def by blast
qed

lemma init_fields:
  assumes "init a_or_n reg env = Inr g"
  shows "host g = Some ''127.0.0.1''" "port g = 8080" "debug g = False"
    "log_level g = None" "twisted g = False" "threads g = None" "is_setup g = False"
proof -
  from init_decompose [OF assms] obtain s4 s5 where
    f: "host s4 = Some ''127.0.0.1''" "port s4 = 8080" "debug s4 = False"
      "log_level s4 = None" "twisted s4 = False" "threads s4 = None" "is_setup s4 = False"
    and p: "setup_prometheus reg env s4 = (Inr (), s5)"
    and g: "g = setup_sentry None env s5"
    by blast
  show "host g = Some ''127.0.0.1''" "port g = 8080" "debug g = False"
    "log_level g = None" "twisted g = False" "threads g = None" "is_setup g = False"
    using f setup_prometheus_frame [OF p]
    by (simp_all add: g setup_sentry_frame)
qed

lemma init_routes:
  assumes "init a_or_n reg env = Inr g"
  shows "url_rules (app g) =
     url_rules (case a_or_n of App a \<Rightarrow> a | Name n \<Rightarrow> Flask n) @
     [(''/'', ''status'', Status), (''/-/healthy'', ''health'', Healthy),
      (''/-/ready'', ''ready'', Ready)] @
     (if has_static_folder (app g) then [(''/favicon.ico'', ''favicon'', Favicon)] else [])"
    and "static_folder (app g) =
       static_folder (case a_or_n of App a \<Rightarrow> a | Name n \<Rightarrow> Flask n)"
proof -
  from init_decompose [OF assms] obtain s4 s5 where
    sf: "static_folder (app s4) =
       static_folder (case a_or_n of App a \<Rightarrow> a | Name n \<Rightarrow> Flask n)"
    and u: "url_rules (app s4) =
       url_rules (case a_or_n of App a \<Rightarrow> a | Name n \<Rightarrow> Flask n) @
       [(''/'', ''status'', Status), (''/-/healthy'', ''health'', Healthy),
        (''/-/ready'', ''ready'', Ready)] @
       (if has_static_folder (app s4) then [(''/favicon.ico'', ''favicon'', Favicon)]
        else [])"
    and p: "setup_prometheus reg env s4 = (Inr (), s5)"
    and g: "g = setup_sentry None env s5"
    by blast
  have sg: "static_folder (app g) = static_folder (app s4)"
    using setup_prometheus_frame [OF p] by (simp add: g setup_sentry_frame)
  then have hg: "has_static_folder (app g) = has_static_folder (app s4)"
    by (simp add: has_static_folder_def)
  have ug: "url_rules (app g) = url_rules (app s4)"
    using setup_prometheus_frame [OF p] by (simp add: g setup_sentry_frame)
  show "url_rules (app g) =
     url_rules (case a_or_n of App a \<Rightarrow> a | Name n \<Rightarrow> Flask n) @
     [(''/'', ''status'', Status), (''/-/healthy'', ''health'', Healthy),
      (''/-/ready'', ''ready'', Ready)] @
     (if has_static_folder (app g) then [(''/favicon.ico'', ''favicon'', Favicon)] else [])"
    unfolding ug hg by (rule u)
  show "static_folder (app g) =
       static_folder (case a_or_n of App a \<Rightarrow> a | Name n \<Rightarrow> Flask n)"
    using sg sf by simp
qed

lemma defaults_get_argparser:
  "defaults (get_argparser None) =
     [(''host'', PNone), (''port'', PInt 9050), (''debug'', PBool False),
      (''log_level'', PStr ''INFO''), (''twisted'', PBool False), (''threads'', PNone)]"
  by (simp add: defaults_def get_argparser_def dest_def)

lemma vars_cli_defaults: "vars cli_defaults = defaults (get_argparser None)"
  by (simp add: defaults_get_argparser vars_def cli_defaults_def)

lemma svc_app:
  "app svc =
     \<lparr>name = ''svc'', static_folder = Some ''static'', config = Map.empty,
      app_logger = \<lparr>handlers = [], level = 0, propagate = True,
                    calls = [(''INFO'', ''Prometheus is enabled.'')]\<rparr>,
      url_rules = [(''/'', ''status'', Status), (''/-/healthy'', ''health'', Healthy),
                   (''/-/ready'', ''ready'', Ready), (''/favicon.ico'', ''favicon'', Favicon)],
      sentry = None\<rparr>"
  unfolding svc_def
  by (simp add: init_def quiet_env_def setup_prometheus_def setup_sentry_def Let_def
      isinstance_def lookup_version_def add_url_rule_def flask_add_url_rule_def
      endpoints_def Flask_def has_static_folder_def PrometheusMetrics_def metrics_info_def
      info_def)

lemma svc_metrics:
  "metrics svc =
     Some \<lparr>registry = [''app_info''],
           infos = [(''app_info'', ''Application info'',
                     [(''version'', ''unknown''), (''appname'', ''svc'')])]\<rparr>"
  unfolding svc_def
  by (simp add: init_def quiet_env_def setup_prometheus_def setup_sentry_def Let_def
      isinstance_def lookup_version_def add_url_rule_def flask_add_url_rule_def
      endpoints_def Flask_def has_static_folder_def PrometheusMetrics_def metrics_info_def
      info_def)

text \<open>
  Constructions that fail: on an application that already maps the endpoint
  \<^verbatim>\<open>status\<close>, on the application of another \<open>Gourde\<close>, and on the registry another
  \<open>Gourde\<close> has registered \<^verbatim>\<open>app_info\<close> in.
\<close>

lemma init_endpoint_taken:
  "init (App ((Flask ''svc'')\<lparr>url_rules := [(''/status'', ''status'', Foreign ''page'')]\<rparr>))
     None quiet_env =
   Inl (PyExc AssertionError
     ''View function mapping is overwriting an existing endpoint function: status'')"
  by (simp add: init_def Let_def add_url_rule_def flask_add_url_rule_def endpoints_def
      Flask_def)

lemma init_second_on_same_registry:
  "init (Name ''other'') (Some (registry (the (metrics svc)))) quiet_env =
   Inl (PyExc ValueError ''Duplicated timeseries in CollectorRegistry: app_info'')"
  by (simp add: svc_metrics init_def Let_def setup_prometheus_def lookup_version_def
      quiet_env_def isinstance_def add_url_rule_def flask_add_url_rule_def endpoints_def
      Flask_def has_static_folder_def PrometheusMetrics_def metrics_info_def)

lemma init_second_on_same_app:
  "init (App (app svc)) (Some []) quiet_env =
   Inl (PyExc AssertionError
     ''View function mapping is overwriting an existing endpoint function: status'')"
  by (simp add: svc_app init_def Let_def add_url_rule_def flask_add_url_rule_def
      endpoints_def)

lemma setup_from_command_line:
  "parse_args env (get_argparser None) = Inr ns \<Longrightarrow>
   call_setup [None] env self = call_setup [Some ns] env self"
  by (simp add: setup_gourde_def)

subsection \<open>Health and readiness probes\<close>

text \<open>
  Claim C1. When the overridden \<^verbatim>\<open>is_healthy\<close> (resp. \<^verbatim>\<open>is_ready\<close>) raises an error
  \<open>E\<close>, a GET to \<^verbatim>\<open>/-/healthy\<close> (resp. \<^verbatim>\<open>/-/ready\<close>) should answer status 500 with
  body \<^verbatim>\<open>str(E)\<close>, log the error at error severity and let nothing escape the handler.
  The handlers do not: their \<^verbatim>\<open>except\<close> branch calls \<^verbatim>\<open>self.app.logger.exception()\<close>
  without the message that \<^verbatim>\<open>Logger.exception\<close> requires. For a check that raises
  \<^verbatim>\<open>Exception('db down')\<close> the call raises \<^verbatim>\<open>TypeError\<close>, which leaves the handler;
  nothing is logged and the answer \<^verbatim>\<open>('db down', 500)\<close> is never returned.
\<close>

theorem raising_check_escapes_handler:
  "healthy Raising self =
     (Inl (PyExc TypeError ''exception() missing 1 required positional argument: 'msg' ''),
      self) \<and>
   ready Raising self =
     (Inl (PyExc TypeError ''exception() missing 1 required positional argument: 'msg' ''),
      self) \<and>
   fst (healthy Raising self) \<noteq> Inr (''db down'', 500) \<and>
   fst (ready Raising self) \<noteq> Inr (''db down'', 500)"
  by (simp add: healthy_def ready_def Raising_def isinstance_def)

text \<open>
  Claim C2. Whenever the overridden \<^verbatim>\<open>is_healthy\<close> (resp. \<^verbatim>\<open>is_ready\<close>) returns true,
  the handler of \<^verbatim>\<open>/-/healthy\<close> (resp. \<^verbatim>\<open>/-/ready\<close>) answers \<^verbatim>\<open>('OK', 200)\<close>; whenever
  it returns false, the handler answers \<^verbatim>\<open>('FAIL', 500)\<close>; the checks of \<open>Gourde\<close>
  itself return true, so its handlers answer \<^verbatim>\<open>('OK', 200)\<close>. The object is left as it
  was.
\<close>

theorem probe_follows_check:
  "(healthy_hook cls self = Inr b \<longrightarrow>
      healthy cls self = (Inr (if b then (''OK'', 200) else (''FAIL'', 500)), self)) \<and>
   (ready_hook cls self = Inr c \<longrightarrow>
      ready cls self = (Inr (if c then (''OK'', 200) else (''FAIL'', 500)), self)) \<and>
   is_healthy self = Inr True \<and> is_ready self = Inr True \<and>
   healthy Gourde self = (Inr (''OK'', 200), self) \<and>
   ready Gourde self = (Inr (''OK'', 200), self)"
  by (simp add: healthy_def ready_def Gourde_def is_healthy_def is_ready_def)

theorem probe_follows_check_witness:
  "healthy_hook Failing svc = Inr False \<and> ready_hook Failing svc = Inr False \<and>
   healthy Failing svc = (Inr (''FAIL'', 500), svc) \<and>
   ready Failing svc = (Inr (''FAIL'', 500), svc) \<and>
   healthy_hook Gourde svc = Inr True \<and> ready_hook Gourde svc = Inr True \<and>
   healthy Gourde svc = (Inr (''OK'', 200), svc) \<and>
   ready Gourde svc = (Inr (''OK'', 200), svc)"
  using probe_follows_check [of Failing svc False False]
    probe_follows_check [of Gourde svc True True]
  by (simp add: Failing_def Gourde_def is_healthy_def is_ready_def)

subsection \<open>Running\<close>

text \<open>
  Claim C3. On an object whose \<^verbatim>\<open>setup\<close> was never called, \<^verbatim>\<open>run\<close> should first
  perform the setup itself and then dispatch to a server. It does not: \<^verbatim>\<open>run\<close> calls
  \<^verbatim>\<open>self.setup()\<close> without the argument that \<^verbatim>\<open>def setup(self, args)\<close> requires, so
  the call raises \<^verbatim>\<open>TypeError\<close>; the object stays unconfigured and no server is
  started.
\<close>

theorem run_unconfigured_raises:
  "run opts env (self\<lparr>is_setup := False\<rparr>) =
     (Inl (PyExc TypeError ''setup() missing 1 required positional argument: 'args' ''),
      self\<lparr>is_setup := False\<rparr>, [])"
  by (simp add: run_def)

text \<open>
  Claim C4. With the default server, the flag \<^verbatim>\<open>threaded\<close> handed to \<^verbatim>\<open>app.run\<close> is
  true exactly when a thread count is set and greater than zero; no thread count or a
  count of 0 gives \<^verbatim>\<open>threaded=False\<close>, a count of 4 gives \<^verbatim>\<open>threaded=True\<close>. Host, port,
  debug flag and options are passed on as they are.
\<close>

theorem werkzeug_threaded_flag:
  "run_with_werkzeug opts self =
     [AppRun (host self) (port self) (debug self) (\<exists>n. threads self = Some n \<and> 0 < n) opts] \<and>
   run_with_werkzeug opts (self\<lparr>threads := None\<rparr>) =
     [AppRun (host self) (port self) (debug self) False opts] \<and>
   run_with_werkzeug opts (self\<lparr>threads := Some 0\<rparr>) =
     [AppRun (host self) (port self) (debug self) False opts] \<and>
   run_with_werkzeug opts (self\<lparr>threads := Some 4\<rparr>) =
     [AppRun (host self) (port self) (debug self) True opts]"
  by (cases "threads self") (simp_all add: run_with_werkzeug_def)

text \<open>
  Claim C5. With the Twisted server the calls are, in this order:
  \<^verbatim>\<open>flask_twisted.Twisted(app)\<close>; \<^verbatim>\<open>reactor.suggestThreadPoolSize(n)\<close> when a positive
  thread count \<open>n\<close> is set, with that count; \<^verbatim>\<open>log.startLogging(sys.stderr)\<close> when a
  log level is set (neither \<^verbatim>\<open>None\<close> nor the empty string, which switches logging
  off); and last \<^verbatim>\<open>twisted.run\<close>, which starts the reactor. Nothing else is called, so
  the pool has the configured size and the log goes to standard error before the reactor
  starts. Without a thread count, or with a count of 0, the pool is left alone; a thread
  count of 8 gives a pool size of 8.
\<close>

theorem twisted_pool_and_logging:
  "(threads self = Some n \<and> 0 < n \<and> truthy_str (log_level self) \<longrightarrow>
      run_with_twisted opts self =
        [TwistedInit, SuggestThreadPoolSize n, StartLogging Stderr,
         TwistedRun (host self) (port self) (debug self) opts]) \<and>
   (threads self = Some n \<and> 0 < n \<and> \<not> truthy_str (log_level self) \<longrightarrow>
      run_with_twisted opts self =
        [TwistedInit, SuggestThreadPoolSize n,
         TwistedRun (host self) (port self) (debug self) opts]) \<and>
   (\<not> truthy_int (threads self) \<and> truthy_str (log_level self) \<longrightarrow>
      run_with_twisted opts self =
        [TwistedInit, StartLogging Stderr,
         TwistedRun (host self) (port self) (debug self) opts]) \<and>
   (\<not> truthy_int (threads self) \<and> \<not> truthy_str (log_level self) \<longrightarrow>
      run_with_twisted opts self =
        [TwistedInit, TwistedRun (host self) (port self) (debug self) opts]) \<and>
   run_with_twisted opts (self\<lparr>threads := Some 8\<rparr>) =
     [TwistedInit, SuggestThreadPoolSize 8] @
     (if truthy_str (log_level self) then [StartLogging Stderr] else []) @
     [TwistedRun (host self) (port self) (debug self) opts]"
  by (cases "threads self") (simp_all add: run_with_twisted_def)

theorem twisted_pool_and_logging_witness:
  "threads (svc\<lparr>threads := Some 8, log_level := Some ''INFO''\<rparr>) = Some 8 \<and> (0::int) < 8 \<and>
   truthy_str (log_level (svc\<lparr>threads := Some 8, log_level := Some ''INFO''\<rparr>)) \<and>
   run_with_twisted [] (svc\<lparr>threads := Some 8, log_level := Some ''INFO''\<rparr>) =
     [TwistedInit, SuggestThreadPoolSize 8, StartLogging Stderr,
      TwistedRun (host svc) (port svc) (debug svc) []] \<and>
   \<not> truthy_str (log_level (svc\<lparr>threads := Some 4, log_level := Some []\<rparr>)) \<and>
   run_with_twisted [] (svc\<lparr>threads := Some 4, log_level := Some []\<rparr>) =
     [TwistedInit, SuggestThreadPoolSize 4,
      TwistedRun (host svc) (port svc) (debug svc) []] \<and>
   \<not> truthy_int (threads (svc\<lparr>threads := Some 0, log_level := Some ''INFO''\<rparr>)) \<and>
   run_with_twisted [] (svc\<lparr>threads := Some 0, log_level := Some ''INFO''\<rparr>) =
     [TwistedInit, StartLogging Stderr,
      TwistedRun (host svc) (port svc) (debug svc) []] \<and>
   \<not> truthy_int (threads (svc\<lparr>threads := None, log_level := None\<rparr>)) \<and>
   \<not> truthy_str (log_level (svc\<lparr>threads := None, log_level := None\<rparr>)) \<and>
   run_with_twisted [] (svc\<lparr>threads := None, log_level := None\<rparr>) =
     [TwistedInit, TwistedRun (host svc) (port svc) (debug svc) []]"
  using twisted_pool_and_logging
      [of "svc\<lparr>threads := Some 8, log_level := Some ''INFO''\<rparr>" 8 "[]"]
    twisted_pool_and_logging
      [of "svc\<lparr>threads := Some 4, log_level := Some []\<rparr>" 4 "[]"]
    twisted_pool_and_logging
      [of "svc\<lparr>threads := Some 0, log_level := Some ''INFO''\<rparr>" 0 "[]"]
    twisted_pool_and_logging
      [of "svc\<lparr>threads := None, log_level := None\<rparr>" 0 "[]"]
  by simp

subsection \<open>Configuration\<close>

text \<open>
  Claim C6, amended. For every argument bundle, \<^verbatim>\<open>setup(args)\<close> stores host, port,
  debug flag, log level, Twisted flag and thread count exactly as the bundle gives them
  and runs \<^verbatim>\<open>setup_logging\<close> on the bundle's log level. When that level is absent,
  empty or a level name registered with \<^verbatim>\<open>logging\<close>, the call returns normally and
  \<^verbatim>\<open>is_setup\<close> is true. (The claim as written promises this for every bundle; a level
  name that \<^verbatim>\<open>logging\<close> does not know makes \<^verbatim>\<open>setLevel\<close> raise before \<^verbatim>\<open>is_setup\<close>
  is assigned.)
\<close>

theorem setup_stores_bundle:
  "host (snd (call_setup [Some ns] env self)) = ns_host ns \<and>
   port (snd (call_setup [Some ns] env self)) = ns_port ns \<and>
   debug (snd (call_setup [Some ns] env self)) = ns_debug ns \<and>
   log_level (snd (call_setup [Some ns] env self)) = ns_log_level ns \<and>
   twisted (snd (call_setup [Some ns] env self)) = ns_twisted ns \<and>
   threads (snd (call_setup [Some ns] env self)) = ns_threads ns \<and>
   app (snd (call_setup [Some ns] env self)) =
     app (snd (setup_logging (ns_log_level ns) self)) \<and>
   (known_level (ns_log_level ns) \<longrightarrow>
      fst (call_setup [Some ns] env self) = Inr () \<and>
      is_setup (snd (call_setup [Some ns] env self)))"
proof -
  define s1 where
    "s1 = self\<lparr>host := ns_host ns, port := ns_port ns, debug := ns_debug ns,
                log_level := ns_log_level ns, twisted := ns_twisted ns,
                threads := ns_threads ns\<rparr>"
  define r where "r = setup_logging (ns_log_level ns) s1"
  have call: "call_setup [Some ns] env self =
      (case r of (Inl e, s2) \<Rightarrow> (Inl e, s2) | (Inr u, s2) \<Rightarrow> (Inr (), s2\<lparr>is_setup := True\<rparr>))"
    by (simp add: setup_gourde_def s1_def r_def Let_def)
  have same: "app s1 = app self"
    by (simp add: s1_def)
  have app_r: "app (snd r) = app (snd (setup_logging (ns_log_level ns) self))"
    unfolding r_def using setup_logging_app_only [OF same] by simp
  have fields: "host (snd r) = ns_host ns" "port (snd r) = ns_port ns"
    "debug (snd r) = ns_debug ns" "log_level (snd r) = ns_log_level ns"
    "twisted (snd r) = ns_twisted ns" "threads (snd r) = ns_threads ns"
    unfolding r_def by (simp_all add: setup_logging_fields s1_def)
  have ok: "known_level (ns_log_level ns) \<longrightarrow> fst r = Inr ()"
    unfolding r_def by (simp add: known_level_ok)
  obtain o2 s2 where r2: "r = (o2, s2)"
    by (cases r)
  show ?thesis
    using fields app_r ok unfolding call r2
    by (cases o2) simp_all
qed

theorem setup_stores_bundle_witness:
  "known_level (ns_log_level debug_args) \<and>
   call_setup [Some debug_args] quiet_env svc =
     (Inr (),
      svc\<lparr>app := app (snd (setup_logging (Some ''DEBUG'') svc)),
          host := Some ''0.0.0.0'', port := 8000, debug := True,
          log_level := Some ''DEBUG'', twisted := True, threads := Some 8,
          is_setup := True\<rparr>)"
proof -
  have k: "known_level (ns_log_level debug_args)"
    by (simp add: known_level_def debug_args_def nameToLevel_def)
  have e: "call_setup [Some debug_args] quiet_env svc =
     (Inr (),
      svc\<lparr>app := app (snd (setup_logging (Some ''DEBUG'') svc)),
          host := Some ''0.0.0.0'', port := 8000, debug := True,
          log_level := Some ''DEBUG'', twisted := True, threads := Some 8,
          is_setup := True\<rparr>)"
    by (simp add: setup_gourde_def debug_args_def Let_def setup_logging_def
        setLevel_getLevelName nameToLevel_def)
  from k e setup_stores_bundle [of debug_args quiet_env svc] show ?thesis
    by simp
qed

text \<open>
  The bundle \<open>verbose_args\<close> carries the log level \<^verbatim>\<open>'verbose'\<close>: \<^verbatim>\<open>setup\<close> raises
  \<^verbatim>\<open>ValueError\<close> and the object is still not set up.
\<close>

theorem setup_unknown_level_counterexample:
  "fst (call_setup [Some verbose_args] quiet_env svc) =
     Inl (PyExc ValueError ''Unknown level: Level verbose'') \<and>
   is_setup (snd (call_setup [Some verbose_args] quiet_env svc)) = False"
  using init_fields(7) [OF init_svc]
  by (simp add: setup_gourde_def verbose_args_def debug_args_def Let_def setup_logging_def
        setLevel_getLevelName nameToLevel_def)

text \<open>
  Claim C8, amended. \<^verbatim>\<open>setup_logging\<close> with an absent or empty level returns and
  leaves the object, and with it all logging state, as it was. With a non-empty level
  that is a name registered with \<^verbatim>\<open>logging\<close> it attaches one stream handler with the
  fixed format, sets the threshold to the level of that name and logs one info message.
  Every call with a non-empty level, registered or not, appends one more handler to the
  ones already attached, so two calls leave two. (The claim as written promises the
  threshold for every non-empty level.)
\<close>

theorem setup_logging_effect:
  "(\<not> truthy_str lvl0 \<longrightarrow> setup_logging lvl0 self = (Inr (), self)) \<and>
   (s \<noteq> [] \<and> map_of nameToLevel s = Some n \<longrightarrow>
      setup_logging (Some s) self =
        (Inr (),
         self\<lparr>app := (app self)
            \<lparr>config := (config (app self))(''LOGGER_HANDLER_POLICY'' \<mapsto> ''never''),
             app_logger :=
               \<lparr>handlers = handlers (app_logger (app self)) @
                             [StreamHandler (Some LOG_FORMAT)],
                level = n, propagate = True,
                calls = calls (app_logger (app self)) @
                          [(''INFO'', ''Logging initialized.'')]\<rparr>\<rparr>\<rparr>)) \<and>
   (truthy_str lvl \<longrightarrow>
      handlers (app_logger (app (snd (setup_logging lvl self)))) =
        handlers (app_logger (app self)) @ [StreamHandler (Some LOG_FORMAT)]) \<and>
   (truthy_str lvl \<and> truthy_str lvl' \<longrightarrow>
      handlers (app_logger (app (snd (setup_logging lvl' (snd (setup_logging lvl self)))))) =
        handlers (app_logger (app self)) @
          [StreamHandler (Some LOG_FORMAT), StreamHandler (Some LOG_FORMAT)])"
  by (simp add: setup_logging_skip setup_logging_known setup_logging_handlers)

theorem setup_logging_effect_witness:
  "\<not> truthy_str (Some []) \<and> setup_logging (Some []) svc = (Inr (), svc) \<and>
   ''INFO'' \<noteq> [] \<and> map_of nameToLevel ''INFO'' = Some 20 \<and>
   fst (setup_logging (Some ''INFO'') svc) = Inr () \<and>
   level (app_logger (app (snd (setup_logging (Some ''INFO'') svc)))) = 20 \<and>
   truthy_str (Some ''INFO'') \<and> truthy_str (Some ''DEBUG'') \<and>
   handlers (app_logger (app (snd (setup_logging (Some ''INFO'') svc)))) =
     [StreamHandler (Some LOG_FORMAT)] \<and>
   handlers (app_logger (app (snd (setup_logging (Some ''DEBUG'')
       (snd (setup_logging (Some ''INFO'') svc)))))) =
     [StreamHandler (Some LOG_FORMAT), StreamHandler (Some LOG_FORMAT)]"
proof -
  have i: "map_of nameToLevel ''INFO'' = Some 20"
    by (simp add: nameToLevel_def)
  have e: "\<not> truthy_str (Some [])" "''INFO'' \<noteq> []" "truthy_str (Some ''INFO'')"
    "truthy_str (Some ''DEBUG'')"
    by simp_all
  have h0: "handlers (app_logger (app svc)) = []"
    by (simp add: svc_app)
  note t = setup_logging_effect
    [of "Some []" svc "''INFO''" 20 "Some ''INFO''" "Some ''DEBUG''"]
  from t e have a: "setup_logging (Some []) svc = (Inr (), svc)"
    by blast
  from t e i have "setup_logging (Some ''INFO'') svc =
        (Inr (),
         svc\<lparr>app := (app svc)
            \<lparr>config := (config (app svc))(''LOGGER_HANDLER_POLICY'' \<mapsto> ''never''),
             app_logger :=
               \<lparr>handlers = handlers (app_logger (app svc)) @
                             [StreamHandler (Some LOG_FORMAT)],
                level = 20, propagate = True,
                calls = calls (app_logger (app svc)) @
                          [(''INFO'', ''Logging initialized.'')]\<rparr>\<rparr>\<rparr>)"
    by blast
  then have b: "fst (setup_logging (Some ''INFO'') svc) = Inr ()"
    "level (app_logger (app (snd (setup_logging (Some ''INFO'') svc)))) = 20"
    by simp_all
  from t e have c: "handlers (app_logger (app (snd (setup_logging (Some ''INFO'') svc)))) =
      handlers (app_logger (app svc)) @ [StreamHandler (Some LOG_FORMAT)]"
    by blast
  from t e have d: "handlers (app_logger (app (snd (setup_logging (Some ''DEBUG'')
       (snd (setup_logging (Some ''INFO'') svc)))))) =
      handlers (app_logger (app svc)) @
        [StreamHandler (Some LOG_FORMAT), StreamHandler (Some LOG_FORMAT)]"
    by blast
  from a b c d e i show ?thesis
    unfolding h0 by simp
qed

text \<open>
  With the level \<^verbatim>\<open>'verbose'\<close> the call raises \<^verbatim>\<open>ValueError\<close> and the threshold is
  what it was.
\<close>

theorem setup_logging_unknown_level_counterexample:
  "fst (setup_logging (Some ''verbose'') svc) =
     Inl (PyExc ValueError ''Unknown level: Level verbose'') \<and>
   level (app_logger (app (snd (setup_logging (Some ''verbose'') svc)))) =
     level (app_logger (app svc))"
proof -
  have "map_of nameToLevel ''verbose'' = None"
    by (simp add: nameToLevel_def)
  then show ?thesis
    by (simp add: setup_logging_unknown)
qed

subsection \<open>Construction\<close>

text \<open>
  Claim C7. Every constructed \<open>Gourde\<close> has had the routes \<^verbatim>\<open>/\<close>, \<^verbatim>\<open>/-/healthy\<close> and
  \<^verbatim>\<open>/-/ready\<close> registered on the application by its constructor, and
  \<^verbatim>\<open>/favicon.ico\<close> exactly when the application has a static folder; \<^verbatim>\<open>setup\<close> has
  not been called at that point.
\<close>

theorem builtin_routes_registered:
  assumes "init a_or_n reg env = Inr g"
  shows "\<exists>new. url_rules (app g) =
             url_rules (case a_or_n of App a \<Rightarrow> a | Name n \<Rightarrow> Flask n) @ new \<and>
           (''/'', ''status'', Status) \<in> set new \<and>
           (''/-/healthy'', ''health'', Healthy) \<in> set new \<and>
           (''/-/ready'', ''ready'', Ready) \<in> set new \<and>
           ((''/favicon.ico'', ''favicon'', Favicon) \<in> set new) = has_static_folder (app g) \<and>
           is_setup g = False"
proof -
  define new where
    "new = [(''/'', ''status'', Status), (''/-/healthy'', ''health'', Healthy),
            (''/-/ready'', ''ready'', Ready)] @
           (if has_static_folder (app g) then [(''/favicon.ico'', ''favicon'', Favicon)]
            else [])"
  have "url_rules (app g) =
          url_rules (case a_or_n of App a \<Rightarrow> a | Name n \<Rightarrow> Flask n) @ new"
    unfolding new_def by (rule init_routes(1) [OF assms])
  moreover have "(''/'', ''status'', Status) \<in> set new"
    "(''/-/healthy'', ''health'', Healthy) \<in> set new"
    "(''/-/ready'', ''ready'', Ready) \<in> set new"
    "((''/favicon.ico'', ''favicon'', Favicon) \<in> set new) = has_static_folder (app g)"
    by (simp_all add: new_def)
  moreover have "is_setup g = False"
    by (rule init_fields(7) [OF assms])
  ultimately show ?thesis
    by blast
qed

theorem builtin_routes_registered_witness:
  "init (Name ''svc'') None quiet_env = Inr svc \<and>
   url_rules (app svc) =
     [(''/'', ''status'', Status), (''/-/healthy'', ''health'', Healthy),
      (''/-/ready'', ''ready'', Ready), (''/favicon.ico'', ''favicon'', Favicon)] \<and>
   has_static_folder (app svc) \<and> is_setup svc = False"
  using builtin_routes_registered [OF init_svc] init_svc
  by (auto simp add: svc_app has_static_folder_def)

text \<open>
  Claim C9, amended. When the lookup of the installed version fails with
  \<^verbatim>\<open>DistributionNotFound\<close>, the failure is not fatal: metrics attachment and the whole
  construction go on exactly as they do when the lookup returns the version
  \<^verbatim>\<open>'unknown'\<close>, and whenever metrics attachment completes, the metric \<^verbatim>\<open>app_info\<close> is
  registered with the version \<^verbatim>\<open>'unknown'\<close> and the application's name. When the lookup
  fails with any other exception, raised by \<^verbatim>\<open>require\<close> or by the index \<^verbatim>\<open>[0]\<close>, that
  exception leaves \<^verbatim>\<open>setup_prometheus\<close> and no object is constructed. (The claim as
  written promises the fallback for any failure of the lookup.)
\<close>

theorem version_lookup_fallback:
  "(lookup_version env = Inl e \<and> isinstance e DistributionNotFound \<longrightarrow>
      setup_prometheus reg env self =
        setup_prometheus reg (env\<lparr>require := Inr [''unknown'']\<rparr>) self \<and>
      init a_or_n reg env = init a_or_n reg (env\<lparr>require := Inr [''unknown'']\<rparr>) \<and>
      (setup_prometheus reg env self = (Inr (), s') \<longrightarrow>
         (\<exists>m. metrics s' = Some m \<and>
              infos m = [(''app_info'', ''Application info'',
                          [(''version'', ''unknown''), (''appname'', name (app self))])]))) \<and>
   (lookup_version env = Inl e' \<and> \<not> isinstance e' DistributionNotFound \<longrightarrow>
      fst (setup_prometheus reg env self) = Inl e' \<and>
      (\<exists>x. init a_or_n reg env = Inl x))"
proof (intro conjI impI)
  assume h: "lookup_version env = Inl e \<and> isinstance e DistributionNotFound"
  have u: "lookup_version (env\<lparr>require := Inr [''unknown'']\<rparr>) = Inr ''unknown''"
    by (simp add: lookup_version_def first_version_def)
  have sp: "setup_prometheus reg env s =
      setup_prometheus reg (env\<lparr>require := Inr [''unknown'']\<rparr>) s" for s
    using h by (simp add: setup_prometheus_def Let_def u)
  have ss: "setup_sentry d (env\<lparr>require := Inr [''unknown'']\<rparr>) s = setup_sentry d env s"
    for d s
    by (simp add: setup_sentry_def)
  show "setup_prometheus reg env self =
      setup_prometheus reg (env\<lparr>require := Inr [''unknown'']\<rparr>) self"
    by (rule sp)
  show "init a_or_n reg env = init a_or_n reg (env\<lparr>require := Inr [''unknown'']\<rparr>)"
    unfolding init_def Let_def sp ss by (rule refl)
  assume "setup_prometheus reg env self = (Inr (), s')"
  with h show "\<exists>m. metrics s' = Some m \<and>
      infos m = [(''app_info'', ''Application info'',
                  [(''version'', ''unknown''), (''appname'', name (app self))])]"
    by (auto simp add: setup_prometheus_def Let_def metrics_info_def PrometheusMetrics_def
        split: if_splits)
next
  assume h: "lookup_version env = Inl e' \<and> \<not> isinstance e' DistributionNotFound"
  then show f: "fst (setup_prometheus reg env self) = Inl e'"
    by (simp add: setup_prometheus_def Let_def)
  show "\<exists>x. init a_or_n reg env = Inl x"
  proof (cases "init a_or_n reg env")
    case (Inl x)
    then show ?thesis by blast
  next
    case (Inr g)
    from init_decompose [OF Inr] obtain s4 s5 where
      "setup_prometheus reg env s4 = (Inr (), s5)"
      by blast
    moreover from h have "fst (setup_prometheus reg env s4) = Inl e'"
      by (simp add: setup_prometheus_def Let_def)
    ultimately show ?thesis by simp
  qed
qed

theorem version_lookup_fallback_witness:
  "lookup_version quiet_env = Inl (PyExc DistributionNotFound ''svc'') \<and>
   isinstance (PyExc DistributionNotFound ''svc'') DistributionNotFound \<and>
   init (Name ''svc'') None quiet_env = Inr svc \<and>
   init (Name ''svc'') None (quiet_env\<lparr>require := Inr [''unknown'']\<rparr>) = Inr svc \<and>
   metrics svc =
     Some \<lparr>registry = [''app_info''],
           infos = [(''app_info'', ''Application info'',
                     [(''version'', ''unknown''), (''appname'', ''svc'')])]\<rparr> \<and>
   lookup_version conflict_env = Inl (PyExc VersionConflict ''(flask 0.10 , flask>=0.12)'') \<and>
   \<not> isinstance (PyExc VersionConflict ''(flask 0.10 , flask>=0.12)'') DistributionNotFound \<and>
   fst (setup_prometheus (Some []) conflict_env svc) =
     Inl (PyExc VersionConflict ''(flask 0.10 , flask>=0.12)'') \<and>
   lookup_version empty_env = Inl (PyExc IndexError ''list index out of range'') \<and>
   \<not> isinstance (PyExc IndexError ''list index out of range'') DistributionNotFound \<and>
   fst (setup_prometheus None empty_env svc) =
     Inl (PyExc IndexError ''list index out of range'') \<and>
   init (App (Flask ''api'')) (Some []) empty_env =
     Inl (PyExc IndexError ''list index out of range'')"
proof -
  have q: "lookup_version quiet_env = Inl (PyExc DistributionNotFound ''svc'')"
    "isinstance (PyExc DistributionNotFound ''svc'') DistributionNotFound"
    by (simp_all add: lookup_version_def quiet_env_def isinstance_def)
  have c: "lookup_version conflict_env =
      Inl (PyExc VersionConflict ''(flask 0.10 , flask>=0.12)'')"
    "\<not> isinstance (PyExc VersionConflict ''(flask 0.10 , flask>=0.12)'') DistributionNotFound"
    by (simp_all add: lookup_version_def conflict_env_def quiet_env_def isinstance_def)
  have e: "lookup_version empty_env = Inl (PyExc IndexError ''list index out of range'')"
    "\<not> isinstance (PyExc IndexError ''list index out of range'') DistributionNotFound"
    by (simp_all add: lookup_version_def empty_env_def quiet_env_def isinstance_def
        first_version_def)
  have i: "init (App (Flask ''api'')) (Some []) empty_env =
      Inl (PyExc IndexError ''list index out of range'')"
    by (simp add: init_def Let_def setup_prometheus_def e add_url_rule_def
        flask_add_url_rule_def endpoints_def Flask_def has_static_folder_def)
  from version_lookup_fallback
      [of quiet_env "PyExc DistributionNotFound ''svc''" None svc "Name ''svc''"] q init_svc
  have a: "init (Name ''svc'') None (quiet_env\<lparr>require := Inr [''unknown'']\<rparr>) = Inr svc"
    by simp
  from version_lookup_fallback
      [of conflict_env _ "Some []" svc _ _
        "PyExc VersionConflict ''(flask 0.10 , flask>=0.12)''"] c
  have b: "fst (setup_prometheus (Some []) conflict_env svc) =
     Inl (PyExc VersionConflict ''(flask 0.10 , flask>=0.12)'')"
    by blast
  from version_lookup_fallback
      [of empty_env _ None svc _ _ "PyExc IndexError ''list index out of range''"] e
  have d: "fst (setup_prometheus None empty_env svc) =
     Inl (PyExc IndexError ''list index out of range'')"
    by blast
  from q c e i a b d init_svc svc_metrics show ?thesis
    by simp
qed

text \<open>
  A version conflict among the installed distributions: \<^verbatim>\<open>require\<close> raises
  \<^verbatim>\<open>VersionConflict\<close>, which the handler for \<^verbatim>\<open>DistributionNotFound\<close> does not catch,
  and no object is constructed.
\<close>

theorem version_conflict_counterexample:
  "init (Name ''svc'') None conflict_env =
     Inl (PyExc VersionConflict ''(flask 0.10 , flask>=0.12)'')"
  by (simp add: init_def Let_def setup_prometheus_def lookup_version_def conflict_env_def
      quiet_env_def isinstance_def add_url_rule_def flask_add_url_rule_def endpoints_def
      Flask_def has_static_folder_def)

text \<open>
  Claim C10. A freshly constructed \<open>Gourde\<close> has host \<^verbatim>\<open>'127.0.0.1'\<close>, port 8080,
  debug off, the Twisted flag off, no thread count, and is not set up. The defaults of
  the command-line parser are different: no host, port 9050 and log level \<^verbatim>\<open>'INFO'\<close>.
\<close>

theorem fresh_gourde_state:
  assumes "init a_or_n reg env = Inr g"
  shows "host g = Some ''127.0.0.1'' \<and> port g = 8080 \<and> debug g = False \<and>
         twisted g = False \<and> threads g = None \<and> is_setup g = False \<and>
         map_of (defaults (get_argparser None)) ''host'' = Some PNone \<and>
         map_of (defaults (get_argparser None)) ''port'' = Some (PInt 9050) \<and>
         map_of (defaults (get_argparser None)) ''log_level'' = Some (PStr ''INFO'') \<and>
         host g \<noteq> None \<and> port g \<noteq> 9050 \<and> log_level g \<noteq> Some ''INFO''"
  using init_fields [OF assms]
  by (simp add: defaults_get_argparser)

theorem fresh_gourde_state_witness:
  "init (Name ''svc'') None quiet_env = Inr svc \<and>
   host svc = Some ''127.0.0.1'' \<and> port svc = 8080 \<and> debug svc = False \<and>
   twisted svc = False \<and> threads svc = None \<and> is_setup svc = False \<and>
   log_level svc = None"
  using fresh_gourde_state [OF init_svc] init_svc init_fields(4) [OF init_svc]
  by simp

end
